theory Spec2Isabelle
  imports Complex_Main "HOL-Library.Word"
begin

unbundle bit_operations_syntax

text \<open>
  A model of \<^verbatim>\<open>include/cinder/app/AppBase.h\<close>: the event combiners, the synchronous
  dispatch onto the primary thread, the frame-rate settings and the sampled average frame
  rate of the application object, and the free convenience functions that reach the
  application through \<^verbatim>\<open>AppBase::get()\<close>. Line numbers refer to that header. The
  definitions come first, the properties after them.
\<close>

section \<open>Event combiners (lines 55-101)\<close>

text \<open>
  A combiner is applied by a signal to the input range \<open>[first, last)\<close> of a slot call
  iterator. Dereferencing the iterator (\<open>*first\<close>) invokes the slot it points at, and a
  slot may have side effects. The range is therefore a list of slots, each a function from
  the program state to its result and the new state; \<open>*first++\<close> is the invocation of the
  head of the list followed by a step to its tail.
\<close>

type_synonym ('s, 'r) slot = "'s \<Rightarrow> 'r \<times> 's"

text \<open>
  \<^verbatim>\<open>while( first != last ) handled = *first++ || handled;\<close>
  The left operand of \<open>||\<close> is the slot invocation, so it is evaluated in every iteration;
  only the read of \<open>handled\<close> can be skipped.
\<close>

fun or_loop :: "('s, bool) slot list \<Rightarrow> bool \<Rightarrow> 's \<Rightarrow> bool \<times> 's" where
  "or_loop [] handled s = (handled, s)"
| "or_loop (f # fs) handled s = (case f s of (r, s') \<Rightarrow> or_loop fs (r \<or> handled) s')"

definition BooleanOrEventCombiner :: "('s, bool) slot list \<Rightarrow> 's \<Rightarrow> bool \<times> 's" where
  "BooleanOrEventCombiner slots s = or_loop slots (if slots = [] then True else False) s"

text \<open>\<^verbatim>\<open>bool result = true; while( first != last ) result = *first++ && result;\<close>\<close>

fun and_loop :: "('s, bool) slot list \<Rightarrow> bool \<Rightarrow> 's \<Rightarrow> bool \<times> 's" where
  "and_loop [] result s = (result, s)"
| "and_loop (f # fs) result s = (case f s of (r, s') \<Rightarrow> and_loop fs (r \<and> result) s')"

definition BooleanAndEventCombiner :: "('s, bool) slot list \<Rightarrow> 's \<Rightarrow> bool \<times> 's" where
  "BooleanAndEventCombiner slots s = and_loop slots True s"

text \<open>
  \<^verbatim>\<open>if( first == last ) return 0; T mask = *first++; while( first != last ) mask &= *first++;\<close>
  The integer-like type \<open>T\<close> is a machine word of any width.
\<close>

fun mask_loop :: "('s, 'a::len word) slot list \<Rightarrow> 'a word \<Rightarrow> 's \<Rightarrow> 'a word \<times> 's" where
  "mask_loop [] m s = (m, s)"
| "mask_loop (f # fs) m s = (case f s of (r, s') \<Rightarrow> mask_loop fs (m AND r) s')"

definition BitwiseAndEventCombiner :: "('s, 'a::len word) slot list \<Rightarrow> 's \<Rightarrow> 'a word \<times> 's" where
  "BitwiseAndEventCombiner slots s =
     (case slots of
        [] \<Rightarrow> (0, s)
      | f # fs \<Rightarrow> (case f s of (m, s') \<Rightarrow> mask_loop fs m s'))"

text \<open>
  The reference behaviour the combiners are compared with: every slot of the range is
  invoked once, in order, each on the state its predecessor left; the results are
  collected.
\<close>

fun invoke_all :: "('s, 'r) slot list \<Rightarrow> 's \<Rightarrow> 'r list \<times> 's" where
  "invoke_all [] s = ([], s)"
| "invoke_all (f # fs) s =
     (case f s of (r, s') \<Rightarrow> (case invoke_all fs s' of (rs, s'') \<Rightarrow> (r # rs, s'')))"

text \<open>The boolean OR, the boolean AND and the bitwise AND of a sequence of results.\<close>

definition or_of :: "bool list \<Rightarrow> bool" where
  "or_of rs = foldr (\<or>) rs False"

definition and_of :: "bool list \<Rightarrow> bool" where
  "and_of rs = foldr (\<and>) rs True"

definition bitand_of :: "'a::len word list \<Rightarrow> 'a word" where
  "bitand_of rs = foldr (AND) rs (- 1)"

text \<open>
  Instrumentation for counting invocations: slot number \<open>i\<close> of the range, besides doing
  what it does, increments counter \<open>i\<close>.
\<close>

definition counted :: "nat \<Rightarrow> ('s, 'r) slot \<Rightarrow> ('s \<times> (nat \<Rightarrow> nat), 'r) slot" where
  "counted i f = (\<lambda>(s, cnt). case f s of (r, s') \<Rightarrow> (r, (s', cnt(i := cnt i + 1))))"

definition instrument :: "('s, 'r) slot list \<Rightarrow> ('s \<times> (nat \<Rightarrow> nat), 'r) slot list" where
  "instrument slots = map (\<lambda>(i, f). counted i f) (zip [0..<length slots] slots)"

section \<open>Dispatch onto the primary thread (lines 394-404 and 589-602)\<close>

text \<open>
  A callable given to \<^verbatim>\<open>dispatchSync\<close> or \<^verbatim>\<open>dispatchAsync\<close> is a piece of code that
  works on the application's data (of some type \<open>'w\<close>), may itself dispatch further
  callables, and in the end returns a value or throws:
  \<^item> \<open>Body f\<close> computes on the data alone: \<open>f\<close> gives the result and the new data;
  \<^item> \<open>Sync c\<close> is \<^verbatim>\<open>return dispatchSync( c );\<close>
  \<^item> \<open>Async c k\<close> is \<^verbatim>\<open>dispatchAsync( c );\<close> followed by the code \<open>k\<close>.
\<close>

type_synonym exn = string
type_synonym slot_id = nat

datatype 'a result = Value 'a | Raised exn

datatype ('w, 'a) callable =
    Body "'w \<Rightarrow> 'a result \<times> 'w"
  | Sync "('w, 'a) callable"
  | Async "('w, 'a) callable" "('w, 'a) callable"

text \<open>
  What a thread sees of a call: the call completed (with a value or an exception), or the
  thread is suspended inside \<^verbatim>\<open>fute.get()\<close> on the shared state of a packaged task; it
  resumes with the content of that shared state once there is one (\<open>future_get\<close>).
\<close>

datatype 'a outcome = Completed "'a result" | Blocked slot_id

text \<open>
  The functions in the queue: \<open>Plain fn\<close> is a function a caller gave to
  \<^verbatim>\<open>dispatchAsync\<close>; \<open>Packaged sl fn\<close> is the lambda \<^verbatim>\<open>[&task]() { task(); }\<close> of
  \<^verbatim>\<open>dispatchSync\<close>, where \<^verbatim>\<open>task\<close> is the \<^verbatim>\<open>std::packaged_task\<close> made from \<open>fn\<close> and
  \<open>sl\<close> identifies the shared state it has in common with its future.
\<close>

datatype ('w, 'a) task =
    Plain "('w, 'a) callable"
  | Packaged slot_id "('w, 'a) callable"

text \<open>
  The state the dispatch works on: the application's data, the queue of dispatched
  functions, the shared states of the packaged tasks (\<open>None\<close> while not ready; each new
  packaged task takes the next identifier), and the exceptions reported by the drain step.
\<close>

record ('w, 'a) dispatcher =
  user :: 'w
  queue :: "('w, 'a) task list"
  result_slot :: "slot_id \<Rightarrow> 'a result option"
  next_slot :: slot_id
  reported :: "exn list"

text \<open>
  Modelled from the spec: the body of \<^verbatim>\<open>AppBase::dispatchAsync\<close>, which the header only
  declares (line 401). "Enqueues the callable; returns immediately", in "FIFO enqueue
  order"; the queue is unbounded, so the call never fails.
\<close>

definition dispatchAsync :: "('w, 'a) task \<Rightarrow> ('w, 'a) dispatcher \<Rightarrow> ('w, 'a) dispatcher" where
  "dispatchAsync fn s = s\<lparr>queue := queue s @ [fn]\<rparr>"

text \<open>
  \<^verbatim>\<open>fute.get()\<close> of the standard library: it waits until the shared state is ready, then
  returns the stored value or rethrows the stored exception.
\<close>

definition future_get :: "slot_id \<Rightarrow> ('w, 'a) dispatcher \<Rightarrow> 'a outcome" where
  "future_get sl s = (case result_slot s sl of None \<Rightarrow> Blocked sl | Some r \<Rightarrow> Completed r)"

text \<open>
  \<open>run p fn s\<close> executes the callable \<open>fn\<close> on a thread for which
  \<^verbatim>\<open>isPrimaryThread()\<close> returns \<open>p\<close>; \<open>dispatchSync p fn s\<close> is lines 589-602 called on
  such a thread:
  \<^verbatim>\<open>
  if( isPrimaryThread() )
      return fn();
  else {
      std::packaged_task<result_type()> task( std::move( fn ) );
      auto fute = task.get_future();
      dispatchAsync( [&task]() { task(); } );
      return fute.get();
  }
  \<close>
\<close>

fun run :: "bool \<Rightarrow> ('w, 'a) callable \<Rightarrow> ('w, 'a) dispatcher \<Rightarrow> 'a outcome \<times> ('w, 'a) dispatcher"
and dispatchSync :: "bool \<Rightarrow> ('w, 'a) callable \<Rightarrow> ('w, 'a) dispatcher \<Rightarrow> 'a outcome \<times> ('w, 'a) dispatcher"
where
  "run p (Body f) s = (case f (user s) of (r, w') \<Rightarrow> (Completed r, s\<lparr>user := w'\<rparr>))"
| "run p (Sync c) s = dispatchSync p c s"
| "run p (Async c k) s = run p k (dispatchAsync (Plain c) s)"
| "dispatchSync p fn s =
     (if p then run p fn s
      else
        (let sl = next_slot s;
             s1 = s\<lparr>next_slot := Suc sl\<rparr>;
             s2 = dispatchAsync (Packaged sl fn) s1
         in (future_get sl s2, s2)))"

declare dispatchSync.simps [simp del]

text \<open>
  Modelled from the spec: the drain step, which the header does not contain (the per-frame
  handler \<^verbatim>\<open>privateUpdate__\<close> is only declared, line 422). It is "invoked once per frame
  by AppRuntime, primary thread only", and it does "atomically take the entire current
  queue contents, then execute each task in FIFO order outside the lock, so tasks enqueued
  during execution land in the next frame's drain". "A callable that raises is caught at
  the task boundary"; for \<^verbatim>\<open>dispatchAsync\<close> "it is reported but must not crash the drain
  loop".

  A packaged task stores what its callable returns or throws in its shared state and
  itself returns normally; invoked on a shared state that is already ready it throws
  (\<^verbatim>\<open>promise_already_satisfied\<close>) without calling the callable. The result is \<open>None\<close> when
  the primary thread blocks inside a task: then the drain step does not return.
\<close>

fun run_task :: "('w, 'a) task \<Rightarrow> ('w, 'a) dispatcher \<Rightarrow> ('w, 'a) dispatcher option" where
  "run_task (Plain fn) s =
     (case run True fn s of
        (Completed (Value v), s') \<Rightarrow> Some s'
      | (Completed (Raised e), s') \<Rightarrow> Some (s'\<lparr>reported := reported s' @ [e]\<rparr>)
      | (Blocked sl, s') \<Rightarrow> None)"
| "run_task (Packaged sl fn) s =
     (case result_slot s sl of
        Some r \<Rightarrow> Some (s\<lparr>reported := reported s @ [''promise_already_satisfied'']\<rparr>)
      | None \<Rightarrow>
          (case run True fn s of
             (Completed r, s') \<Rightarrow> Some (s'\<lparr>result_slot := (result_slot s')(sl \<mapsto> r)\<rparr>)
           | (Blocked sl', s') \<Rightarrow> None))"

text \<open>
  Modelled from the spec: the loop of the drain step over the functions it took from the
  queue, "each task in FIFO order"; after a function that threw, "execution of remaining
  queued tasks for that frame continues".
\<close>

fun drain_loop :: "('w, 'a) task list \<Rightarrow> ('w, 'a) dispatcher \<Rightarrow> ('w, 'a) dispatcher option" where
  "drain_loop [] s = Some s"
| "drain_loop (t # ts) s =
     (case run_task t s of None \<Rightarrow> None | Some s' \<Rightarrow> drain_loop ts s')"

text \<open>
  Modelled from the spec: the drain step as a whole. It takes "the entire current queue
  contents", which leaves the queue empty for what the functions dispatch while they run.
\<close>

definition drain :: "('w, 'a) dispatcher \<Rightarrow> ('w, 'a) dispatcher option" where
  "drain s = drain_loop (queue s) (s\<lparr>queue := []\<rparr>)"

text \<open>
  What can happen between a call of \<^verbatim>\<open>dispatchSync\<close> and the next drain step: other
  threads dispatch asynchronously or synchronously, and the primary thread itself calls
  \<^verbatim>\<open>dispatchSync\<close> (from the update hook, say).
\<close>

datatype ('w, 'a) event =
    OtherAsync "('w, 'a) callable"
  | OtherSync "('w, 'a) callable"
  | PrimarySync "('w, 'a) callable"

fun event_step :: "('w, 'a) event \<Rightarrow> ('w, 'a) dispatcher \<Rightarrow> ('w, 'a) dispatcher" where
  "event_step (OtherAsync fn) s = dispatchAsync (Plain fn) s"
| "event_step (OtherSync fn) s = snd (dispatchSync False fn s)"
| "event_step (PrimarySync fn) s = snd (dispatchSync True fn s)"

fun events :: "('w, 'a) event list \<Rightarrow> ('w, 'a) dispatcher \<Rightarrow> ('w, 'a) dispatcher" where
  "events [] s = s"
| "events (e # es) s = events es (event_step e s)"

text \<open>
  The states the dispatch can be in: identifiers not yet handed out belong to no shared
  state that is ready and to no packaged task in the queue. It holds at the start and every
  operation keeps it (\<open>ok_start\<close>, \<open>ok_events\<close>, \<open>ok_drain\<close> below).
\<close>

fun task_slot_below :: "slot_id \<Rightarrow> ('w, 'a) task \<Rightarrow> bool" where
  "task_slot_below n (Plain fn) = True"
| "task_slot_below n (Packaged sl fn) = (sl < n)"

definition dispatcher_ok :: "('w, 'a) dispatcher \<Rightarrow> bool" where
  "dispatcher_ok s \<longleftrightarrow> (\<forall>sl. next_slot s \<le> sl \<longrightarrow> result_slot s sl = None)
          \<and> list_all (task_slot_below (next_slot s)) (queue s)"

definition start :: "'w \<Rightarrow> ('w, 'a) dispatcher" where
  "start w = \<lparr>user = w, queue = [], result_slot = (\<lambda>_. None), next_slot = 0, reported = []\<rparr>"

text \<open>
  The callables that \<open>fn\<close> hands to \<^verbatim>\<open>dispatchAsync\<close> itself when it runs on the primary
  thread, in order.
\<close>

fun asyncs :: "('w, 'a) callable \<Rightarrow> ('w, 'a) callable list" where
  "asyncs (Body f) = []"
| "asyncs (Sync c) = asyncs c"
| "asyncs (Async c k) = c # asyncs k"

section \<open>Frame-rate settings (lines 107-220)\<close>

text \<open>
  The fields of \<^verbatim>\<open>AppBase::Settings\<close> that are plain data (lines 209-217); the \<^verbatim>\<open>float\<close>
  frame rate is a real number here.
\<close>

record Settings =
  mTitle :: string
  Settings_mCommandLineArgs :: "string list"
  mFrameRateEnabled :: bool
  mFrameRate :: real
  Settings_mPowerManagement :: bool
  mEnableHighDensityDisplay :: bool
  mEnableMultiTouch :: bool
  mShouldQuit :: bool

definition isFrameRateEnabled :: "Settings \<Rightarrow> bool" where
  "isFrameRateEnabled st = mFrameRateEnabled st"

definition Settings_getFrameRate :: "Settings \<Rightarrow> real" where
  "Settings_getFrameRate st = mFrameRate st"

text \<open>The error of a configuration call that is rejected.\<close>

datatype config_error = InvalidFrameRate

text \<open>
  Modelled from the spec: the body of \<^verbatim>\<open>AppBase::Settings::setFrameRate\<close>, which the header
  only declares (line 190; \<^verbatim>\<open>AppBase::setFrameRate\<close>, line 331, is pure virtual).
  "\<^verbatim>\<open>setFrameRate(rate)\<close> / \<^verbatim>\<open>disableFrameRate()\<close>: mutate the target/enabled flag; [...] rate
  must be > 0 when enabling (reject/clamp otherwise - caller error, not a crash)", and an
  "invalid frame-rate value" is a configuration error, "rejected at configuration time,
  never silently coerced except where a documented clamp applies". Neither the
  specification nor the header documents a clamp for the frame rate, so a rate that is not
  positive is rejected: the call reports the error and leaves the settings as they were.
  The result is the error, if any, and the settings after the call. The test is
  \<open>0 < frameRate\<close>, so that anything that is not positive takes the other branch.
\<close>

definition Settings_setFrameRate :: "real \<Rightarrow> Settings \<Rightarrow> config_error option \<times> Settings" where
  "Settings_setFrameRate frameRate st =
     (if 0 < frameRate then (None, st\<lparr>mFrameRate := frameRate, mFrameRateEnabled := True\<rparr>)
      else (Some InvalidFrameRate, st))"

text \<open>
  Modelled from the spec: the body of \<^verbatim>\<open>AppBase::Settings::disableFrameRate\<close>, which the
  header only declares (line 192): it clears the enabled flag.
\<close>

definition disableFrameRate :: "Settings \<Rightarrow> Settings" where
  "disableFrameRate st = st\<lparr>mFrameRateEnabled := False\<rparr>"

section \<open>The application object and the free functions (lines 103-587)\<close>

text \<open>
  What a call can run into instead of returning: the dereference of a null pointer
  (undefined behaviour in C++, a value of its own here), or the exception that
  \<^verbatim>\<open>getWindow()\<close> and \<^verbatim>\<open>getWindowIndex()\<close> are documented to throw (lines 282, 286).
\<close>

datatype fault = NullDereference | ExcInvalidWindow

type_synonym ivec2 = "int \<times> int"

text \<open>
  The arithmetic of the type \<^verbatim>\<open>float\<close> that the member functions use: the conversion
  \<^verbatim>\<open>(float)n\<close> of an \<^verbatim>\<open>int\<close>, the product, the quotient and the literal \<^verbatim>\<open>0.5f\<close>. It
  rounds, and a quotient by zero is an infinity or not a number; it is a parameter of the
  definitions that compute with it, and \<open>'f\<close> is the type of its values.
\<close>

record 'f float_ops =
  float_of_int :: "int \<Rightarrow> 'f"
  float_times :: "'f \<Rightarrow> 'f \<Rightarrow> 'f"
  float_divide :: "'f \<Rightarrow> 'f \<Rightarrow> 'f"
  float_half :: 'f

datatype Area = Area int int int int

text \<open>
  The class \<^verbatim>\<open>Window\<close> is declared elsewhere; a window is represented by what its getters
  return. Its other member functions are parameters of the definitions that call them.
\<close>

record Window =
  getWidth :: int
  getHeight :: int
  getPos :: ivec2
  getContentScale :: real
  Window_isFullScreen :: bool

text \<open>
  The application object: the data members of \<^verbatim>\<open>AppBase\<close> that are plain data (lines
  445-451 and 454, 465; \<open>mTimer_getSeconds\<close> is what \<^verbatim>\<open>mTimer.getSeconds()\<close> returns now,
  and \<^verbatim>\<open>float\<close> and \<^verbatim>\<open>double\<close> values are real numbers), and, for the pure virtual
  member functions \<^verbatim>\<open>getWindow\<close>, \<^verbatim>\<open>getNumWindows\<close>, \<^verbatim>\<open>getWindowIndex\<close>,
  \<^verbatim>\<open>getFrameRate\<close> and \<^verbatim>\<open>getAppPath\<close>, what the implementation of the object's class
  returns.
\<close>

record AppBase =
  mTimer_getSeconds :: real
  mFrameCount :: "32 word"
  mAverageFps :: real
  mFpsLastSampleFrame :: "32 word"
  mFpsLastSampleTime :: real
  mFpsSampleInterval :: real
  mMultiTouchEnabled :: bool
  mHighDensityDisplayEnabled :: bool
  mCommandLineArgs :: "string list"
  mPowerManagement :: bool
  AppBase_getWindow :: "fault + Window"
  AppBase_getNumWindows :: nat
  AppBase_getWindowIndex :: "nat \<Rightarrow> fault + Window"
  AppBase_getFrameRate :: real
  AppBase_getAppPath :: string

subsection \<open>The sampled average frame rate (lines 332-337)\<close>


definition getFpsSampleInterval :: "AppBase \<Rightarrow> real" where
  "getFpsSampleInterval app = mFpsSampleInterval app"




subsection \<open>The static instance and the member functions the free functions call\<close>

text \<open>
  The static data: \<^verbatim>\<open>AppBase::sInstance\<close> (line 462), null when no application is live,
  and the pointer that \<^verbatim>\<open>Platform::get()\<close> returns (the class \<^verbatim>\<open>Platform\<close> is declared
  elsewhere; \<open>'p\<close> is the type of its objects).
\<close>

record 'p globals =
  sInstance :: "AppBase option"
  Platform_get :: "'p option"

text \<open>\<^verbatim>\<open>static AppBase* get() { return sInstance; }\<close> (line 428)\<close>

definition AppBase_get :: "'p globals \<Rightarrow> AppBase option" where
  "AppBase_get g = sInstance g"

text \<open>\<^verbatim>\<open>p->member(...)\<close> on a pointer \<open>p\<close> that may be null.\<close>

definition arrow :: "'obj option \<Rightarrow> ('obj \<Rightarrow> fault + 'r) \<Rightarrow> fault + 'r" where
  "arrow p member = (case p of None \<Rightarrow> Inl NullDereference | Some obj \<Rightarrow> member obj)"

text \<open>
  \<^verbatim>\<open>getWindow()->member(...)\<close> inside a member function of the application (lines
  297-342): an exception of \<^verbatim>\<open>getWindow()\<close> propagates. A virtual member function that
  has a body in the header is modelled by that body.
\<close>

definition on_window :: "AppBase \<Rightarrow> (Window \<Rightarrow> 'r) \<Rightarrow> fault + 'r" where
  "on_window app member = (case AppBase_getWindow app of Inl e \<Rightarrow> Inl e | Inr w \<Rightarrow> Inr (member w))"

definition AppBase_getWindowWidth :: "AppBase \<Rightarrow> fault + int" where
  "AppBase_getWindowWidth app = on_window app getWidth"

definition AppBase_getWindowHeight :: "AppBase \<Rightarrow> fault + int" where
  "AppBase_getWindowHeight app = on_window app getHeight"

definition AppBase_setWindowSize :: "(ivec2 \<Rightarrow> Window \<Rightarrow> 'r) \<Rightarrow> ivec2 \<Rightarrow> AppBase \<Rightarrow> fault + 'r" where
  "AppBase_setWindowSize Window_setSize size' app = on_window app (Window_setSize size')"

text \<open>
  \<^verbatim>\<open>return vec2( (float)getWindowWidth(), (float)getWindowHeight() ) * 0.5f;\<close> (line 306):
  both components are multiplied by \<^verbatim>\<open>0.5f\<close>.
\<close>

definition AppBase_getWindowCenter :: "'f float_ops \<Rightarrow> AppBase \<Rightarrow> fault + 'f \<times> 'f" where
  "AppBase_getWindowCenter F app =
     (case AppBase_getWindowWidth app of Inl e \<Rightarrow> Inl e | Inr w \<Rightarrow>
      (case AppBase_getWindowHeight app of Inl e \<Rightarrow> Inl e | Inr h \<Rightarrow>
         Inr (float_times F (float_of_int F w) (float_half F),
              float_times F (float_of_int F h) (float_half F))))"

definition AppBase_getWindowSize :: "AppBase \<Rightarrow> fault + ivec2" where
  "AppBase_getWindowSize app =
     (case AppBase_getWindowWidth app of Inl e \<Rightarrow> Inl e | Inr w \<Rightarrow>
      (case AppBase_getWindowHeight app of Inl e \<Rightarrow> Inl e | Inr h \<Rightarrow> Inr (w, h)))"

text \<open>
  \<^verbatim>\<open>return getWindowWidth() / (float)getWindowHeight();\<close> (line 310): the width is
  converted to \<^verbatim>\<open>float\<close> as well, and the division is that of \<^verbatim>\<open>float\<close>.
\<close>

definition AppBase_getWindowAspectRatio :: "'f float_ops \<Rightarrow> AppBase \<Rightarrow> fault + 'f" where
  "AppBase_getWindowAspectRatio F app =
     (case AppBase_getWindowWidth app of Inl e \<Rightarrow> Inl e | Inr w \<Rightarrow>
      (case AppBase_getWindowHeight app of Inl e \<Rightarrow> Inl e | Inr h \<Rightarrow>
         Inr (float_divide F (float_of_int F w) (float_of_int F h))))"

definition AppBase_getWindowBounds :: "AppBase \<Rightarrow> fault + Area" where
  "AppBase_getWindowBounds app =
     (case AppBase_getWindowWidth app of Inl e \<Rightarrow> Inl e | Inr w \<Rightarrow>
      (case AppBase_getWindowHeight app of Inl e \<Rightarrow> Inl e | Inr h \<Rightarrow> Inr (Area 0 0 w h)))"

definition AppBase_getWindowContentScale :: "AppBase \<Rightarrow> fault + real" where
  "AppBase_getWindowContentScale app = on_window app getContentScale"

definition AppBase_getWindowPos :: "AppBase \<Rightarrow> fault + ivec2" where
  "AppBase_getWindowPos app = on_window app getPos"

definition AppBase_setWindowPos :: "(ivec2 \<Rightarrow> Window \<Rightarrow> 'r) \<Rightarrow> ivec2 \<Rightarrow> AppBase \<Rightarrow> fault + 'r" where
  "AppBase_setWindowPos Window_setPos windowPos app = on_window app (Window_setPos windowPos)"

definition AppBase_isFullScreen :: "AppBase \<Rightarrow> fault + bool" where
  "AppBase_isFullScreen app = on_window app Window_isFullScreen"

definition AppBase_setFullScreen :: "(bool \<Rightarrow> Window \<Rightarrow> 'r) \<Rightarrow> bool \<Rightarrow> AppBase \<Rightarrow> fault + 'r" where
  "AppBase_setFullScreen Window_setFullScreen fullScreen app =
     on_window app (Window_setFullScreen fullScreen)"

text \<open>\<^verbatim>\<open>Timeline& timeline() { return *mTimeline; }\<close> (line 392), on a shared pointer.\<close>

definition AppBase_timeline :: "(AppBase \<Rightarrow> 't option) \<Rightarrow> AppBase \<Rightarrow> fault + 't" where
  "AppBase_timeline mTimeline app = arrow (mTimeline app) Inr"

text \<open>\<^verbatim>\<open>virtual void restoreWindowContext() {}\<close> (line 413)\<close>

definition AppBase_restoreWindowContext :: "AppBase \<Rightarrow> unit" where
  "AppBase_restoreWindowContext app = ()"

text \<open>\<^verbatim>\<open>RendererRef getRenderer() const { return getWindow()->getRenderer(); }\<close> (line 278)\<close>

definition AppBase_getRenderer :: "(Window \<Rightarrow> 'r) \<Rightarrow> AppBase \<Rightarrow> fault + 'r" where
  "AppBase_getRenderer Window_getRenderer app = on_window app Window_getRenderer"

definition AppBase_getElapsedSeconds :: "AppBase \<Rightarrow> real" where
  "AppBase_getElapsedSeconds app = mTimer_getSeconds app"

definition AppBase_getElapsedFrames :: "AppBase \<Rightarrow> 32 word" where
  "AppBase_getElapsedFrames app = mFrameCount app"

subsection \<open>The free functions (lines 468-587)\<close>

text \<open>
  Each takes the static data as its last argument. Where the member function it calls is
  declared without a body in the header, or belongs to \<^verbatim>\<open>Window\<close> or \<^verbatim>\<open>Platform\<close>, that
  member function is the first argument; so is the arithmetic of \<^verbatim>\<open>float\<close> where the
  member function computes with it.
\<close>

definition getWindow :: "'p globals \<Rightarrow> fault + Window" where
  "getWindow g = arrow (AppBase_get g) AppBase_getWindow"

definition getNumWindows :: "'p globals \<Rightarrow> fault + nat" where
  "getNumWindows g = arrow (AppBase_get g) (\<lambda>app. Inr (AppBase_getNumWindows app))"

definition getWindowIndex :: "nat \<Rightarrow> 'p globals \<Rightarrow> fault + Window" where
  "getWindowIndex index g = arrow (AppBase_get g) (\<lambda>app. AppBase_getWindowIndex app index)"

definition getWindowWidth :: "'p globals \<Rightarrow> fault + int" where
  "getWindowWidth g = arrow (AppBase_get g) AppBase_getWindowWidth"

definition setWindowPos :: "(ivec2 \<Rightarrow> Window \<Rightarrow> 'r) \<Rightarrow> ivec2 \<Rightarrow> 'p globals \<Rightarrow> fault + 'r" where
  "setWindowPos Window_setPos windowPos g =
     arrow (AppBase_get g) (AppBase_setWindowPos Window_setPos windowPos)"

definition setWindowPos_xy :: "(ivec2 \<Rightarrow> Window \<Rightarrow> 'r) \<Rightarrow> int \<Rightarrow> int \<Rightarrow> 'p globals \<Rightarrow> fault + 'r" where
  "setWindowPos_xy Window_setPos x y g = setWindowPos Window_setPos (x, y) g"

definition getWindowHeight :: "'p globals \<Rightarrow> fault + int" where
  "getWindowHeight g = arrow (AppBase_get g) AppBase_getWindowHeight"

definition setWindowSize :: "(ivec2 \<Rightarrow> Window \<Rightarrow> 'r) \<Rightarrow> int \<Rightarrow> int \<Rightarrow> 'p globals \<Rightarrow> fault + 'r" where
  "setWindowSize Window_setSize windowWidth windowHeight g =
     arrow (AppBase_get g) (AppBase_setWindowSize Window_setSize (windowWidth, windowHeight))"

definition getWindowCenter :: "'f float_ops \<Rightarrow> 'p globals \<Rightarrow> fault + 'f \<times> 'f" where
  "getWindowCenter F g = arrow (AppBase_get g) (AppBase_getWindowCenter F)"

definition getWindowSize :: "'p globals \<Rightarrow> fault + ivec2" where
  "getWindowSize g = arrow (AppBase_get g) AppBase_getWindowSize"

definition getWindowPos :: "'p globals \<Rightarrow> fault + ivec2" where
  "getWindowPos g = arrow (AppBase_get g) AppBase_getWindowPos"

definition getWindowAspectRatio :: "'f float_ops \<Rightarrow> 'p globals \<Rightarrow> fault + 'f" where
  "getWindowAspectRatio F g = arrow (AppBase_get g) (AppBase_getWindowAspectRatio F)"

definition getWindowBounds :: "'p globals \<Rightarrow> fault + Area" where
  "getWindowBounds g = arrow (AppBase_get g) AppBase_getWindowBounds"

definition getWindowContentScale :: "'p globals \<Rightarrow> fault + real" where
  "getWindowContentScale g = arrow (AppBase_get g) AppBase_getWindowContentScale"

definition getFrameRate :: "'p globals \<Rightarrow> fault + real" where
  "getFrameRate g = arrow (AppBase_get g) (\<lambda>app. Inr (AppBase_getFrameRate app))"

definition setFrameRate :: "(real \<Rightarrow> AppBase \<Rightarrow> fault + 'r) \<Rightarrow> real \<Rightarrow> 'p globals \<Rightarrow> fault + 'r" where
  "setFrameRate AppBase_setFrameRate frameRate g =
     arrow (AppBase_get g) (AppBase_setFrameRate frameRate)"

definition isFullScreen :: "'p globals \<Rightarrow> fault + bool" where
  "isFullScreen g = arrow (AppBase_get g) AppBase_isFullScreen"

definition setFullScreen :: "(bool \<Rightarrow> Window \<Rightarrow> 'r) \<Rightarrow> bool \<Rightarrow> 'p globals \<Rightarrow> fault + 'r" where
  "setFullScreen Window_setFullScreen fullScreen g =
     arrow (AppBase_get g) (AppBase_setFullScreen Window_setFullScreen fullScreen)"

text \<open>
  \<^verbatim>\<open>toPixels\<close> and \<^verbatim>\<open>toPoints\<close> (lines 511-530) have five overloads each, all with the body
  \<^verbatim>\<open>return getWindow()->toPixels( s );\<close> on the free \<^verbatim>\<open>getWindow()\<close>; \<open>'v\<close> is the type of
  the argument.
\<close>

definition toPixels :: "(Window \<Rightarrow> 'v \<Rightarrow> 'v) \<Rightarrow> 'v \<Rightarrow> 'p globals \<Rightarrow> fault + 'v" where
  "toPixels Window_toPixels s g =
     (case getWindow g of Inl e \<Rightarrow> Inl e | Inr w \<Rightarrow> Inr (Window_toPixels w s))"

definition toPoints :: "(Window \<Rightarrow> 'v \<Rightarrow> 'v) \<Rightarrow> 'v \<Rightarrow> 'p globals \<Rightarrow> fault + 'v" where
  "toPoints Window_toPoints s g =
     (case getWindow g of Inl e \<Rightarrow> Inl e | Inr w \<Rightarrow> Inr (Window_toPoints w s))"

definition getElapsedSeconds :: "'p globals \<Rightarrow> fault + real" where
  "getElapsedSeconds g = arrow (AppBase_get g) (\<lambda>app. Inr (AppBase_getElapsedSeconds app))"

definition getElapsedFrames :: "'p globals \<Rightarrow> fault + 32 word" where
  "getElapsedFrames g = arrow (AppBase_get g) (\<lambda>app. Inr (AppBase_getElapsedFrames app))"

definition getAppPath :: "'p globals \<Rightarrow> fault + string" where
  "getAppPath g = arrow (AppBase_get g) (\<lambda>app. Inr (AppBase_getAppPath app))"

definition getOpenFilePath ::
  "(AppBase \<Rightarrow> string \<Rightarrow> string list \<Rightarrow> fault + 'r) \<Rightarrow> string \<Rightarrow> string list \<Rightarrow> 'p globals \<Rightarrow> fault + 'r" where
  "getOpenFilePath AppBase_getOpenFilePath initialPath extensions g =
     arrow (AppBase_get g) (\<lambda>app. AppBase_getOpenFilePath app initialPath extensions)"

definition getSaveFilePath ::
  "(AppBase \<Rightarrow> string \<Rightarrow> string list \<Rightarrow> fault + 'r) \<Rightarrow> string \<Rightarrow> string list \<Rightarrow> 'p globals \<Rightarrow> fault + 'r" where
  "getSaveFilePath AppBase_getSaveFilePath initialPath extensions g =
     arrow (AppBase_get g) (\<lambda>app. AppBase_getSaveFilePath app initialPath extensions)"

definition timeline :: "(AppBase \<Rightarrow> 't option) \<Rightarrow> 'p globals \<Rightarrow> fault + 't" where
  "timeline mTimeline g = arrow (AppBase_get g) (AppBase_timeline mTimeline)"

definition copyWindowSurface :: "(AppBase \<Rightarrow> fault + 'r) \<Rightarrow> 'p globals \<Rightarrow> fault + 'r" where
  "copyWindowSurface AppBase_copyWindowSurface g = arrow (AppBase_get g) AppBase_copyWindowSurface"

definition copyWindowSurface_area ::
  "(AppBase \<Rightarrow> Area \<Rightarrow> fault + 'r) \<Rightarrow> Area \<Rightarrow> 'p globals \<Rightarrow> fault + 'r" where
  "copyWindowSurface_area AppBase_copyWindowSurface area g =
     arrow (AppBase_get g) (\<lambda>app. AppBase_copyWindowSurface app area)"

definition restoreWindowContext :: "'p globals \<Rightarrow> fault + unit" where
  "restoreWindowContext g = arrow (AppBase_get g) (\<lambda>app. Inr (AppBase_restoreWindowContext app))"

text \<open>
  \<^verbatim>\<open>createWindowCgContext\<close> (line 584, Cocoa only): the renderer of the active window, cast
  to \<^verbatim>\<open>Renderer2d\<close> by a \<^verbatim>\<open>dynamic_pointer_cast\<close> that gives null when the renderer is of
  another class, then dereferenced.
\<close>

definition createWindowCgContext ::
  "(Window \<Rightarrow> 'r) \<Rightarrow> ('r \<Rightarrow> 'r2 option) \<Rightarrow> ('r2 \<Rightarrow> 'c) \<Rightarrow> 'p globals \<Rightarrow> fault + 'c" where
  "createWindowCgContext Window_getRenderer dynamic_pointer_cast getCgContext g =
     (case arrow (AppBase_get g) (AppBase_getRenderer Window_getRenderer) of
        Inl e \<Rightarrow> Inl e
      | Inr r \<Rightarrow> arrow (dynamic_pointer_cast r) (\<lambda>r2. Inr (getCgContext r2)))"

text \<open>
  The five free functions that go through \<^verbatim>\<open>Platform::get()\<close> (lines 537-550 and 570;
  \<^verbatim>\<open>loadResource\<close> in the variant for the platforms other than Windows).
\<close>

definition loadResource :: "('p \<Rightarrow> string \<Rightarrow> fault + 'r) \<Rightarrow> string \<Rightarrow> 'p globals \<Rightarrow> fault + 'r" where
  "loadResource Platform_loadResource resourcePath g =
     arrow (Platform_get g) (\<lambda>p. Platform_loadResource p resourcePath)"

definition loadAsset :: "('p \<Rightarrow> string \<Rightarrow> fault + 'r) \<Rightarrow> string \<Rightarrow> 'p globals \<Rightarrow> fault + 'r" where
  "loadAsset Platform_loadAsset relativePath g =
     arrow (Platform_get g) (\<lambda>p. Platform_loadAsset p relativePath)"

definition getAssetPath :: "('p \<Rightarrow> string \<Rightarrow> string) \<Rightarrow> string \<Rightarrow> 'p globals \<Rightarrow> fault + string" where
  "getAssetPath Platform_getAssetPath relativePath g =
     arrow (Platform_get g) (\<lambda>p. Inr (Platform_getAssetPath p relativePath))"

definition addAssetDirectory :: "('p \<Rightarrow> string \<Rightarrow> 'r) \<Rightarrow> string \<Rightarrow> 'p globals \<Rightarrow> fault + 'r" where
  "addAssetDirectory Platform_addAssetDirectory dirPath g =
     arrow (Platform_get g) (\<lambda>p. Inr (Platform_addAssetDirectory p dirPath))"

definition console :: "('p \<Rightarrow> 'r) \<Rightarrow> 'p globals \<Rightarrow> fault + 'r" where
  "console Platform_console g = arrow (Platform_get g) (\<lambda>p. Inr (Platform_console p))"

section \<open>Example data\<close>

text \<open>
  An application with one window of 640 by 480 points, at 60 frames per second, that
  samples its average frame rate once per second and took its last sample at time 0.
\<close>

definition window0 :: Window where
  "window0 = \<lparr>getWidth = 640, getHeight = 480, getPos = (0, 0), getContentScale = 1,
     Window_isFullScreen = False\<rparr>"

definition app0 :: AppBase where
  "app0 = \<lparr>mTimer_getSeconds = 0, mFrameCount = 0, mAverageFps = 60, mFpsLastSampleFrame = 0,
     mFpsLastSampleTime = 0, mFpsSampleInterval = 1, mMultiTouchEnabled = False,
     mHighDensityDisplayEnabled = False, mCommandLineArgs = [], mPowerManagement = False,
     AppBase_getWindow = Inr window0, AppBase_getNumWindows = 1,
     AppBase_getWindowIndex = (\<lambda>i. if i < 1 then Inr window0 else Inl ExcInvalidWindow),
     AppBase_getFrameRate = 60, AppBase_getAppPath = ''/app''\<rparr>"

text \<open>The settings a new application starts from: limited to 60 frames per second (line 189).\<close>

definition settings0 :: Settings where
  "settings0 = \<lparr>mTitle = ''app'', Settings_mCommandLineArgs = [], mFrameRateEnabled = True,
     mFrameRate = 60, Settings_mPowerManagement = False, mEnableHighDensityDisplay = False,
     mEnableMultiTouch = False, mShouldQuit = False\<rparr>"

section \<open>Properties of the combiners\<close>

lemma or_loop_invoke_all:
  "or_loop slots h s = (or_of (fst (invoke_all slots s)) \<or> h, snd (invoke_all slots s))"
  by (induction slots arbitrary: h s) (auto simp: or_of_def split: prod.splits)

lemma and_loop_invoke_all:
  "and_loop slots h s = (and_of (fst (invoke_all slots s)) \<and> h, snd (invoke_all slots s))"
  by (induction slots arbitrary: h s) (auto simp: and_of_def split: prod.splits)

lemma mask_loop_invoke_all:
  "mask_loop slots m s = (m AND bitand_of (fst (invoke_all slots s)), snd (invoke_all slots s))"
  by (induction slots arbitrary: m s)
     (auto simp: bitand_of_def ac_simps split: prod.splits)

lemma or_state: "snd (BooleanOrEventCombiner slots s) = snd (invoke_all slots s)"
  by (simp add: BooleanOrEventCombiner_def or_loop_invoke_all)

lemma and_state: "snd (BooleanAndEventCombiner slots s) = snd (invoke_all slots s)"
  by (simp add: BooleanAndEventCombiner_def and_loop_invoke_all)

lemma bitand_state: "snd (BitwiseAndEventCombiner slots s) = snd (invoke_all slots s)"
  by (cases slots) (auto simp: BitwiseAndEventCombiner_def mask_loop_invoke_all split: prod.splits)

lemma invoke_all_counted:
  "snd (snd (invoke_all (map (\<lambda>(i, f). counted i f) (zip [k..<k + length slots] slots)) (s, cnt))) i
     = cnt i + (if k \<le> i \<and> i < k + length slots then 1 else 0)"
proof (induction slots arbitrary: k s cnt)
  case Nil
  then show ?case by simp
next
  case (Cons f fs)
  let ?rest = "map (\<lambda>(i, f). counted i f) (zip [Suc k..<Suc k + length fs] fs)"
  have upt: "[k..<k + length (f # fs)] = k # [Suc k..<Suc k + length fs]"
    by (subst upt_rec) simp
  obtain r s' where fs: "f s = (r, s')" by (cases "f s")
  have step: "snd (invoke_all (map (\<lambda>(i, f). counted i f) (zip [k..<k + length (f # fs)] (f # fs))) (s, cnt))
        = snd (invoke_all ?rest (s', cnt(k := cnt k + 1)))"
    unfolding upt by (simp add: fs counted_def split: prod.splits)
  have "snd (snd (invoke_all (map (\<lambda>(i, f). counted i f) (zip [k..<k + length (f # fs)] (f # fs))) (s, cnt))) i
        = snd (snd (invoke_all ?rest (s', cnt(k := cnt k + 1)))) i"
    by (simp only: step)
  also have "\<dots> = (cnt(k := cnt k + 1)) i + (if Suc k \<le> i \<and> i < Suc k + length fs then 1 else 0)"
    by (rule Cons.IH)
  also have "\<dots> = cnt i + (if k \<le> i \<and> i < k + length (f # fs) then 1 else 0)"
    by auto
  finally show ?case .
qed

lemma invoke_all_instrument:
  "snd (snd (invoke_all (instrument slots) (s, cnt))) i
     = cnt i + (if i < length slots then 1 else 0)"
  using invoke_all_counted [of 0 slots s cnt i] by (simp add: instrument_def)

text \<open>
  C4. Applied to an empty range, the combiners return their identities: true for the OR
  combiner, true for the AND combiner, 0 for the bitwise AND combiner (and the state is
  left as it was).
\<close>

theorem combiners_empty:
  "BooleanOrEventCombiner [] s = (True, s)
   \<and> BooleanAndEventCombiner [] s = (True, s)
   \<and> BitwiseAndEventCombiner [] s = (0, s)"
  by (simp add: BooleanOrEventCombiner_def BooleanAndEventCombiner_def
      BitwiseAndEventCombiner_def)

text \<open>
  C5. On a non-empty range, the OR combiner returns the boolean OR of the results of all
  slots, the AND combiner their boolean AND, and the bitwise AND combiner their bitwise
  AND, the results being those the slots give when each is invoked once, in order.
\<close>

theorem combiners_nonempty:
  assumes "bs \<noteq> []" and "ws \<noteq> []"
  shows "fst (BooleanOrEventCombiner bs s) = or_of (fst (invoke_all bs s))
       \<and> fst (BooleanAndEventCombiner bs s) = and_of (fst (invoke_all bs s))
       \<and> fst (BitwiseAndEventCombiner ws t) = bitand_of (fst (invoke_all ws t))"
proof -
  have "fst (BooleanOrEventCombiner bs s) = or_of (fst (invoke_all bs s))"
    using assms(1) by (simp add: BooleanOrEventCombiner_def or_loop_invoke_all)
  moreover have "fst (BooleanAndEventCombiner bs s) = and_of (fst (invoke_all bs s))"
    by (simp add: BooleanAndEventCombiner_def and_loop_invoke_all)
  moreover have "fst (BitwiseAndEventCombiner ws t) = bitand_of (fst (invoke_all ws t))"
  proof (cases ws)
    case Nil
    with assms(2) show ?thesis by simp
  next
    case (Cons f fs)
    then show ?thesis
      by (auto simp: BitwiseAndEventCombiner_def mask_loop_invoke_all bitand_of_def
          split: prod.splits)
  qed
  ultimately show ?thesis by simp
qed

text \<open>
  The examples of the specification: results \<open>{true, false, true}\<close> give true under OR and
  false under AND; results \<open>{0b110, 0b100}\<close> give \<open>0b100\<close> under bitwise AND.
\<close>

theorem combiners_nonempty_witness:
  "[\<lambda>s. (True, s), \<lambda>s. (False, s), \<lambda>s. (True, s)] \<noteq> ([] :: (unit, bool) slot list)
   \<and> [\<lambda>s. (6, s), \<lambda>s. (4, s)] \<noteq> ([] :: (unit, 8 word) slot list)
   \<and> fst (BooleanOrEventCombiner [\<lambda>s. (True, s), \<lambda>s. (False, s), \<lambda>s. (True, s)] ()) = True
   \<and> fst (BooleanAndEventCombiner [\<lambda>s. (True, s), \<lambda>s. (False, s), \<lambda>s. (True, s)] ()) = False
   \<and> fst (BitwiseAndEventCombiner [\<lambda>s. (6, s), \<lambda>s. (4, s)] ()) = (4 :: 8 word)"
proof -
  let ?bs = "[\<lambda>s. (True, s), \<lambda>s. (False, s), \<lambda>s. (True, s)] :: (unit, bool) slot list"
  let ?ws = "[\<lambda>s. (6, s), \<lambda>s. (4, s)] :: (unit, 8 word) slot list"
  have b: "?bs \<noteq> []" and w: "?ws \<noteq> []"
    by simp_all
  show ?thesis
    using combiners_nonempty [OF b w, of "()" "()"]
    by (simp add: or_of_def and_of_def bitand_of_def)
qed

text \<open>
  C6. No combiner short-circuits: whatever the slots return and whatever they do to the
  state, after one application of a combiner to a range whose slots count their own
  invocations, the counter of every slot of the range is exactly 1 (and no other counter
  has moved).
\<close>

theorem combiners_invoke_every_slot_once:
  "snd (snd (BooleanOrEventCombiner (instrument bs) (s, \<lambda>_. 0))) i = (if i < length bs then 1 else 0)
   \<and> snd (snd (BooleanAndEventCombiner (instrument bs) (s, \<lambda>_. 0))) i = (if i < length bs then 1 else 0)
   \<and> snd (snd (BitwiseAndEventCombiner (instrument ws) (t, \<lambda>_. 0))) i = (if i < length ws then 1 else 0)"
  by (simp add: or_state and_state bitand_state invoke_all_instrument)

section \<open>Properties of the dispatch\<close>

lemma dispatchSync_primary [simp]: "dispatchSync True fn s = run True fn s"
  by (simp add: dispatchSync.simps)

lemma run_primary:
  "\<exists>r. fst (run True fn s) = Completed r"
  "queue (snd (run True fn s)) = queue s @ map Plain (asyncs fn)"
  "result_slot (snd (run True fn s)) = result_slot s"
  "next_slot (snd (run True fn s)) = next_slot s"
  "reported (snd (run True fn s)) = reported s"
  by (induction fn arbitrary: s) (auto simp: dispatchAsync_def split: prod.splits)

lemma dispatchSync_other:
  "dispatchSync False fn s =
     (future_get (next_slot s) s, s\<lparr>next_slot := Suc (next_slot s), queue := queue s @ [Packaged (next_slot s) fn]\<rparr>)"
  by (simp add: dispatchSync.simps dispatchAsync_def future_get_def Let_def)

lemma run_task_plain:
  "\<exists>s'. run_task (Plain fn) s = Some s' \<and> result_slot s' = result_slot s \<and> next_slot s' = next_slot s
        \<and> queue s' = queue s @ map Plain (asyncs fn)"
  using run_primary [of fn s]
  by (cases "run True fn s") (auto split: outcome.splits result.splits)

lemma run_task_packaged_fresh:
  assumes "result_slot s sl = None"
  shows "\<exists>r s'. run True fn s = (Completed r, s')
          \<and> run_task (Packaged sl fn) s = Some (s'\<lparr>result_slot := (result_slot s)(sl \<mapsto> r)\<rparr>)"
  using run_primary [of fn s] assms
  by (cases "run True fn s") (auto split: outcome.splits)

lemma run_task_total: "\<exists>s'. run_task t s = Some s'"
proof (cases t)
  case (Plain fn)
  then show ?thesis using run_task_plain [of fn s] by auto
next
  case (Packaged sl fn)
  show ?thesis
  proof (cases "result_slot s sl")
    case None
    then show ?thesis using run_task_packaged_fresh [of s sl fn] Packaged by auto
  next
    case (Some r)
    then show ?thesis using Packaged by simp
  qed
qed

lemma run_task_keeps_some:
  assumes "result_slot s sl = Some r" and "run_task t s = Some s'"
  shows "result_slot s' sl = Some r"
proof (cases t)
  case (Plain fn)
  then show ?thesis using run_task_plain [of fn s] assms by auto
next
  case (Packaged sl' fn)
  show ?thesis
  proof (cases "result_slot s sl'")
    case None
    then have "sl' \<noteq> sl" using assms(1) by auto
    then show ?thesis
      using run_task_packaged_fresh [OF None, of fn] Packaged assms by auto
  next
    case (Some r')
    then show ?thesis using Packaged assms by auto
  qed
qed

lemma run_task_keeps_none:
  assumes "result_slot s sl = None" and "task_slot_below sl t" and "run_task t s = Some s'"
  shows "result_slot s' sl = None"
proof (cases t)
  case (Plain fn)
  then show ?thesis using run_task_plain [of fn s] assms by auto
next
  case (Packaged sl' fn)
  then have ne: "sl' \<noteq> sl" using assms(2) by auto
  show ?thesis
  proof (cases "result_slot s sl'")
    case None
    then show ?thesis
      using run_task_packaged_fresh [OF None, of fn] Packaged assms ne by auto
  next
    case (Some r')
    then show ?thesis using Packaged assms by auto
  qed
qed

lemma drain_loop_total: "\<exists>s'. drain_loop ts s = Some s'"
proof (induction ts arbitrary: s)
  case Nil
  then show ?case by simp
next
  case (Cons t ts)
  obtain s1 where "run_task t s = Some s1" using run_task_total by blast
  then show ?case using Cons.IH [of s1] by simp
qed

lemma drain_loop_append:
  "drain_loop (xs @ ys) s = (case drain_loop xs s of None \<Rightarrow> None | Some s' \<Rightarrow> drain_loop ys s')"
  by (induction xs arbitrary: s) (auto split: option.splits)

lemma drain_loop_keeps_some:
  "result_slot s sl = Some r \<Longrightarrow> drain_loop ts s = Some s' \<Longrightarrow> result_slot s' sl = Some r"
proof (induction ts arbitrary: s)
  case Nil
  then show ?case by simp
next
  case (Cons t ts)
  then show ?case
    by (auto split: option.splits dest: run_task_keeps_some)
qed

lemma drain_loop_keeps_none:
  "result_slot s sl = None \<Longrightarrow> list_all (task_slot_below sl) ts \<Longrightarrow> drain_loop ts s = Some s'
     \<Longrightarrow> result_slot s' sl = None"
proof (induction ts arbitrary: s)
  case Nil
  then show ?case by simp
next
  case (Cons t ts)
  then show ?case
    by (auto split: option.splits dest: run_task_keeps_none)
qed

lemma event_step_effect:
  "result_slot (event_step e s) = result_slot s \<and> (\<exists>more. queue (event_step e s) = queue s @ more)"
proof (cases e)
  case (OtherAsync fn)
  then show ?thesis by (simp add: dispatchAsync_def)
next
  case (OtherSync fn)
  then show ?thesis by (simp add: dispatchSync_other)
next
  case (PrimarySync fn)
  then show ?thesis using run_primary [of fn s] by simp
qed

lemma events_effect:
  "result_slot (events es s) = result_slot s \<and> (\<exists>more. queue (events es s) = queue s @ more)"
proof (induction es arbitrary: s)
  case Nil
  then show ?case by simp
next
  case (Cons e es)
  obtain m1 where m1: "queue (event_step e s) = queue s @ m1" and sl1: "result_slot (event_step e s) = result_slot s"
    using event_step_effect [of e s] by blast
  obtain m2 where "queue (events es (event_step e s)) = queue (event_step e s) @ m2"
      and "result_slot (events es (event_step e s)) = result_slot (event_step e s)"
    using Cons.IH [of "event_step e s"] by blast
  then show ?case using m1 sl1 by simp
qed


lemma sync_roundtrip:
  assumes "dispatcher_ok s"
  shows "\<exists>post s_pre r s_post s2.
      queue (events es (snd (dispatchSync False fn s))) = queue s @ Packaged (next_slot s) fn # post
    \<and> drain_loop (queue s) ((events es (snd (dispatchSync False fn s)))\<lparr>queue := []\<rparr>) = Some s_pre
    \<and> run True fn s_pre = (Completed r, s_post)
    \<and> drain (events es (snd (dispatchSync False fn s))) = Some s2
    \<and> future_get (next_slot s) s2 = Completed r"
proof -
  let ?sl = "next_slot s"
  let ?s1 = "snd (dispatchSync False fn s)"
  let ?s' = "events es ?s1"
  let ?s0 = "?s'\<lparr>queue := []\<rparr>"
  have s1: "?s1 = s\<lparr>next_slot := Suc ?sl, queue := queue s @ [Packaged ?sl fn]\<rparr>"
    by (simp add: dispatchSync_other)
  obtain post where q: "queue ?s' = queue s @ Packaged ?sl fn # post" and sl: "result_slot ?s' = result_slot s"
    using events_effect [of es ?s1] unfolding s1 by auto
  have none: "result_slot ?s0 ?sl = None"
    using assms sl by (simp add: dispatcher_ok_def)
  have below: "list_all (task_slot_below ?sl) (queue s)"
    using assms by (simp add: dispatcher_ok_def)
  obtain s_pre where pre: "drain_loop (queue s) ?s0 = Some s_pre"
    using drain_loop_total by blast
  have "result_slot s_pre ?sl = None"
    using drain_loop_keeps_none [OF none below pre] .
  then obtain r s_post where run: "run True fn s_pre = (Completed r, s_post)"
      and task: "run_task (Packaged ?sl fn) s_pre = Some (s_post\<lparr>result_slot := (result_slot s_pre)(?sl \<mapsto> r)\<rparr>)"
    using run_task_packaged_fresh by blast
  let ?s_mid = "s_post\<lparr>result_slot := (result_slot s_pre)(?sl \<mapsto> r)\<rparr>"
  obtain s2 where rest: "drain_loop post ?s_mid = Some s2"
    using drain_loop_total by blast
  have "result_slot s2 ?sl = Some r"
    using drain_loop_keeps_some [OF _ rest, of ?sl r] by simp
  then have get: "future_get ?sl s2 = Completed r"
    by (simp add: future_get_def)
  have "drain_loop (Packaged ?sl fn # post) s_pre = Some s2"
    using task rest by (simp del: run_task.simps)
  then have "drain ?s' = Some s2"
    unfolding drain_def q by (simp add: drain_loop_append pre)
  with q pre run get show ?thesis by blast
qed

lemma blocked_until_drain:
  assumes "dispatcher_ok s"
  shows "fst (dispatchSync False fn s) = Blocked (next_slot s)"
    and "future_get (next_slot s) (events es (snd (dispatchSync False fn s))) = Blocked (next_slot s)"
proof -
  have none: "result_slot s (next_slot s) = None" using assms by (simp add: dispatcher_ok_def)
  then show "fst (dispatchSync False fn s) = Blocked (next_slot s)"
    by (simp add: dispatchSync_other future_get_def)
  have "result_slot (events es (snd (dispatchSync False fn s))) = result_slot s"
    using events_effect [of es "snd (dispatchSync False fn s)"]
    by (simp add: dispatchSync_other)
  with none show "future_get (next_slot s) (events es (snd (dispatchSync False fn s))) = Blocked (next_slot s)"
    by (simp add: future_get_def)
qed

lemma ok_start: "dispatcher_ok (start w)"
  by (simp add: dispatcher_ok_def start_def)

lemma task_slot_below_mono: "task_slot_below n t \<Longrightarrow> n \<le> m \<Longrightarrow> task_slot_below m t"
  by (cases t) auto

lemma ok_event_step: "dispatcher_ok s \<Longrightarrow> dispatcher_ok (event_step e s)"
proof (cases e)
  case (OtherAsync fn)
  assume "dispatcher_ok s"
  then show ?thesis using OtherAsync by (simp add: dispatcher_ok_def dispatchAsync_def)
next
  case (OtherSync fn)
  assume "dispatcher_ok s"
  then show ?thesis using OtherSync
    by (auto simp: dispatcher_ok_def dispatchSync_other list_all_iff
        intro: task_slot_below_mono)
next
  case (PrimarySync fn)
  assume "dispatcher_ok s"
  then show ?thesis using PrimarySync run_primary [of fn s]
    by (auto simp: dispatcher_ok_def list_all_iff)
qed

lemma ok_events: "dispatcher_ok s \<Longrightarrow> dispatcher_ok (events es s)"
  by (induction es arbitrary: s) (auto intro: ok_event_step)

lemma ok_run_task:
  assumes "dispatcher_ok s" and "task_slot_below (next_slot s) t" and "run_task t s = Some s'"
  shows "dispatcher_ok s' \<and> next_slot s' = next_slot s"
proof (cases t)
  case (Plain fn)
  then show ?thesis using run_task_plain [of fn s] assms
    by (auto simp: dispatcher_ok_def list_all_iff)
next
  case (Packaged sl fn)
  show ?thesis
  proof (cases "result_slot s sl")
    case None
    obtain r s1 where run: "run True fn s = (Completed r, s1)"
      and task: "run_task (Packaged sl fn) s = Some (s1\<lparr>result_slot := (result_slot s)(sl \<mapsto> r)\<rparr>)"
      using run_task_packaged_fresh [OF None] by blast
    have "queue s1 = queue s @ map Plain (asyncs fn)" "next_slot s1 = next_slot s"
      using run_primary [of fn s] run by auto
    then show ?thesis using assms Packaged task
      by (auto simp: dispatcher_ok_def list_all_iff)
  next
    case (Some r)
    then show ?thesis using assms Packaged by (auto simp: dispatcher_ok_def)
  qed
qed

lemma ok_drain_loop:
  "dispatcher_ok s \<Longrightarrow> list_all (task_slot_below (next_slot s)) ts \<Longrightarrow> drain_loop ts s = Some s'
     \<Longrightarrow> dispatcher_ok s'"
proof (induction ts arbitrary: s)
  case Nil
  then show ?case by simp
next
  case (Cons t ts)
  obtain s1 where s1: "run_task t s = Some s1" using run_task_total by blast
  have "dispatcher_ok s1 \<and> next_slot s1 = next_slot s"
    using ok_run_task [OF Cons.prems(1) _ s1] Cons.prems(2) by simp
  then show ?case using Cons s1 by auto
qed

lemma ok_drain: "dispatcher_ok s \<Longrightarrow> drain s = Some s' \<Longrightarrow> dispatcher_ok s'"
  unfolding drain_def by (rule ok_drain_loop [of "s\<lparr>queue := []\<rparr>"]) (auto simp: dispatcher_ok_def)

text \<open>
  C1. Called on the primary thread, \<^verbatim>\<open>dispatchSync\<close> executes the callable inline: the call
  is the execution of the callable on the calling thread, it completes (the thread never
  blocks), the queue receives nothing but what the callable itself dispatches
  asynchronously, and no shared state is created or touched. A callable that itself calls
  \<^verbatim>\<open>dispatchSync\<close> behaves as the inner callable does, and the drain step, which runs the
  queued functions on the primary thread, always returns, whatever they call.
\<close>

theorem dispatchSync_primary_thread:
  "dispatchSync True fn s = run True fn s
   \<and> (\<exists>r. fst (dispatchSync True fn s) = Completed r)
   \<and> queue (snd (dispatchSync True fn s)) = queue s @ map Plain (asyncs fn)
   \<and> result_slot (snd (dispatchSync True fn s)) = result_slot s
   \<and> next_slot (snd (dispatchSync True fn s)) = next_slot s
   \<and> dispatchSync True (Sync fn) s = dispatchSync True fn s
   \<and> (\<exists>s'. drain s = Some s')"
  using run_primary [of fn s] drain_loop_total [of "queue s" "s\<lparr>queue := []\<rparr>"]
  by (simp add: drain_def)

text \<open>
  The reentrancy test: a queued function that itself calls \<^verbatim>\<open>dispatchSync\<close> is drained to
  completion.
\<close>

theorem dispatchSync_primary_thread_witness:
  "drain (dispatchAsync (Plain (Sync (Body (\<lambda>w. (Value w, w + 1))))) (start (0 :: int)))
     = Some ((start 0 :: (int, int) dispatcher)\<lparr>user := 1\<rparr>)
   \<and> dispatchSync True (Sync (Body (\<lambda>w. (Value w, w + 1)))) (start (0 :: int))
     = (Completed (Value 0), (start 0 :: (int, int) dispatcher)\<lparr>user := 1\<rparr>)"
  using dispatchSync_primary_thread [of "Sync (Body (\<lambda>w. (Value w, w + 1)))" "start (0 :: int) :: (int, int) dispatcher"]
  by (simp add: drain_def dispatchAsync_def start_def)

text \<open>
  C2. Called on another thread, \<^verbatim>\<open>dispatchSync\<close> enqueues the callable, wrapped with a
  fresh shared state, behind what is in the queue, and the calling thread is blocked on
  that shared state. It stays blocked whatever the other threads dispatch and whatever the
  primary thread calls before it drains the queue. The next drain step returns; it
  executes the callable on the primary thread after the functions queued before it, and
  the blocked call then yields the result the callable produced there.
\<close>

theorem dispatchSync_other_thread:
  assumes "dispatcher_ok s"
  shows "fst (dispatchSync False fn s) = Blocked (next_slot s)
    \<and> future_get (next_slot s) (events es (snd (dispatchSync False fn s))) = Blocked (next_slot s)
    \<and> (\<exists>post s_pre r s_post s2.
          queue (events es (snd (dispatchSync False fn s))) = queue s @ Packaged (next_slot s) fn # post
        \<and> drain_loop (queue s) ((events es (snd (dispatchSync False fn s)))\<lparr>queue := []\<rparr>) = Some s_pre
        \<and> run True fn s_pre = (Completed r, s_post)
        \<and> drain (events es (snd (dispatchSync False fn s))) = Some s2
        \<and> future_get (next_slot s) s2 = Completed r)"
  using blocked_until_drain [OF assms] sync_roundtrip [OF assms] by blast

text \<open>
  From the start state: the caller is blocked on shared state 0, another thread dispatches
  asynchronously, and after the drain step the call yields what the callable returned.
\<close>

theorem dispatchSync_other_thread_witness:
  "dispatcher_ok (start (20 :: int) :: (int, int) dispatcher)
   \<and> fst (dispatchSync False (Body (\<lambda>w. (Value (w + 1), w))) (start (20 :: int))) = Blocked 0
   \<and> (\<exists>s2. drain (events [OtherAsync (Body (\<lambda>w. (Value 0, w + 1)))]
                 (snd (dispatchSync False (Body (\<lambda>w. (Value (w + 1), w))) (start (20 :: int))))) = Some s2
          \<and> future_get 0 s2 = Completed (Value (21 :: int)))"
  using dispatchSync_other_thread [OF ok_start, of "Body (\<lambda>w. (Value (w + 1), w))" 20
      "[OtherAsync (Body (\<lambda>w. (Value 0, w + 1)))]"]
  by (simp add: dispatcher_ok_def dispatchSync_other drain_def dispatchAsync_def start_def future_get_def)

text \<open>
  C3. A callable that throws: on the primary thread the exception leaves \<^verbatim>\<open>dispatchSync\<close>
  as it left the callable; on another thread, when the callable throws \<open>e\<close> as the drain
  step executes it, the blocked call yields the same \<open>e\<close>.
\<close>

theorem dispatchSync_reraises:
  "(fst (run True fn s) = Completed (Raised e) \<longrightarrow> fst (dispatchSync True fn s) = Completed (Raised e))
   \<and> (dispatcher_ok s
        \<and> drain_loop (queue s) ((events es (snd (dispatchSync False fn s)))\<lparr>queue := []\<rparr>) = Some s_pre
        \<and> fst (run True fn s_pre) = Completed (Raised e)
      \<longrightarrow> (\<exists>s2. drain (events es (snd (dispatchSync False fn s))) = Some s2
                \<and> future_get (next_slot s) s2 = Completed (Raised e)))"
proof (intro conjI impI)
  assume "fst (run True fn s) = Completed (Raised e)"
  then show "fst (dispatchSync True fn s) = Completed (Raised e)" by simp
next
  assume a: "dispatcher_ok s
        \<and> drain_loop (queue s) ((events es (snd (dispatchSync False fn s)))\<lparr>queue := []\<rparr>) = Some s_pre
        \<and> fst (run True fn s_pre) = Completed (Raised e)"
  then obtain post s_pre' r s_post s2 where
      "drain_loop (queue s) ((events es (snd (dispatchSync False fn s)))\<lparr>queue := []\<rparr>) = Some s_pre'"
      "run True fn s_pre' = (Completed r, s_post)"
      "drain (events es (snd (dispatchSync False fn s))) = Some s2"
      "future_get (next_slot s) s2 = Completed r"
    using sync_roundtrip [of s es fn] by blast
  with a show "\<exists>s2. drain (events es (snd (dispatchSync False fn s))) = Some s2
                \<and> future_get (next_slot s) s2 = Completed (Raised e)"
    by auto
qed

text \<open>A callable that throws \<open>boom\<close>, called on the primary thread and on another one.\<close>

theorem dispatchSync_reraises_witness:
  "dispatcher_ok (start (0 :: int) :: (int, int) dispatcher)
   \<and> fst (run True (Body (\<lambda>w. (Raised ''boom'', w))) (start (0 :: int) :: (int, int) dispatcher))
       = Completed (Raised ''boom'')
   \<and> fst (dispatchSync True (Body (\<lambda>w. (Raised ''boom'', w))) (start (0 :: int) :: (int, int) dispatcher))
       = Completed (Raised ''boom'')
   \<and> (\<exists>s2. drain (snd (dispatchSync False (Body (\<lambda>w. (Raised ''boom'', w)))
                 (start (0 :: int) :: (int, int) dispatcher))) = Some s2
          \<and> future_get 0 s2 = Completed (Raised ''boom'')
          \<and> reported s2 = [])"
proof -
  let ?fn = "Body (\<lambda>w. (Raised ''boom'', w)) :: (int, int) callable"
  let ?s = "start (0 :: int) :: (int, int) dispatcher"
  let ?pre = "?s\<lparr>next_slot := 1\<rparr>"
  have ok: "dispatcher_ok ?s"
    by (rule ok_start)
  have thrown: "fst (run True ?fn ?s) = Completed (Raised ''boom'')"
    by simp
  have reached: "dispatcher_ok ?s
      \<and> drain_loop (queue ?s) ((events [] (snd (dispatchSync False ?fn ?s)))\<lparr>queue := []\<rparr>) = Some ?pre
      \<and> fst (run True ?fn ?pre) = Completed (Raised ''boom'')"
    using ok by (simp add: dispatchSync_other start_def)
  note reraises = dispatchSync_reraises [of ?fn ?s "''boom''" "[]" ?pre]
  have "fst (dispatchSync True ?fn ?s) = Completed (Raised ''boom'')"
    using reraises [THEN conjunct1, THEN mp, OF thrown] .
  moreover have "\<exists>s2. drain (events [] (snd (dispatchSync False ?fn ?s))) = Some s2
      \<and> future_get (next_slot ?s) s2 = Completed (Raised ''boom'')"
    using reraises [THEN conjunct2, THEN mp, OF reached] .
  moreover have "\<And>s2. drain (snd (dispatchSync False ?fn ?s)) = Some s2 \<Longrightarrow> reported s2 = []"
    by (auto simp: dispatchSync_other drain_def start_def)
  ultimately show ?thesis
    using ok thrown by (auto simp: start_def)
qed

section \<open>Properties of the frame clock and of the settings\<close>





text \<open>
  C8. \<^verbatim>\<open>setFrameRate\<close> with a rate that is not positive is rejected as a configuration
  error: the call reports the error and the stored target and enabled flag are those from
  before the call, so the rate is not silently accepted; and the call returns, it is no
  crash. Whatever the rate, a target that is positive before the call is positive after
  it.
\<close>

theorem setFrameRate_invalid_rate:
  "(\<not> 0 < rate \<longrightarrow>
      Settings_setFrameRate rate st = (Some InvalidFrameRate, st)
    \<and> Settings_getFrameRate (snd (Settings_setFrameRate rate st)) = Settings_getFrameRate st
    \<and> isFrameRateEnabled (snd (Settings_setFrameRate rate st)) = isFrameRateEnabled st)
   \<and> (0 < Settings_getFrameRate st
        \<longrightarrow> 0 < Settings_getFrameRate (snd (Settings_setFrameRate rate st)))"
  by (simp add: Settings_setFrameRate_def Settings_getFrameRate_def)

text \<open>
  The rates -5 and 0 are rejected, on the settings a new application starts from and on
  settings with the limit disabled; the target stays at 60.
\<close>

theorem setFrameRate_invalid_rate_witness:
  "\<not> 0 < (- 5 :: real) \<and> 0 < Settings_getFrameRate settings0
   \<and> Settings_setFrameRate (- 5) settings0 = (Some InvalidFrameRate, settings0)
   \<and> Settings_getFrameRate (snd (Settings_setFrameRate (- 5) settings0)) = 60
   \<and> isFrameRateEnabled (snd (Settings_setFrameRate (- 5) settings0))
   \<and> \<not> 0 < (0 :: real) \<and> 0 < Settings_getFrameRate (disableFrameRate settings0)
   \<and> fst (Settings_setFrameRate 0 (disableFrameRate settings0)) = Some InvalidFrameRate
   \<and> Settings_getFrameRate (snd (Settings_setFrameRate 0 (disableFrameRate settings0))) = 60
   \<and> \<not> isFrameRateEnabled (snd (Settings_setFrameRate 0 (disableFrameRate settings0)))"
proof -
  have neg: "\<not> 0 < (- 5 :: real)" and zero: "\<not> 0 < (0 :: real)"
    by simp_all
  have pos: "0 < Settings_getFrameRate settings0"
    and pos': "0 < Settings_getFrameRate (disableFrameRate settings0)"
    by (simp_all add: Settings_getFrameRate_def disableFrameRate_def settings0_def)
  note a = setFrameRate_invalid_rate [of "- 5" settings0]
  note b = setFrameRate_invalid_rate [of 0 "disableFrameRate settings0"]
  show ?thesis
    using a [THEN conjunct1, THEN mp, OF neg] a [THEN conjunct2, THEN mp, OF pos]
      b [THEN conjunct1, THEN mp, OF zero] b [THEN conjunct2, THEN mp, OF pos'] neg zero pos pos'
    by (simp add: Settings_getFrameRate_def isFrameRateEnabled_def disableFrameRate_def
        settings0_def)
qed

section \<open>Properties of the free functions\<close>

lemmas free_function_defs =
  AppBase_get_def arrow_def on_window_def getWindow_def getNumWindows_def getWindowIndex_def
  getWindowWidth_def setWindowPos_def setWindowPos_xy_def getWindowHeight_def setWindowSize_def
  getWindowCenter_def getWindowSize_def getWindowPos_def getWindowAspectRatio_def
  getWindowBounds_def getWindowContentScale_def getFrameRate_def setFrameRate_def
  isFullScreen_def setFullScreen_def toPixels_def toPoints_def getElapsedSeconds_def
  getElapsedFrames_def getAppPath_def getOpenFilePath_def getSaveFilePath_def timeline_def
  copyWindowSurface_def copyWindowSurface_area_def restoreWindowContext_def
  createWindowCgContext_def loadResource_def loadAsset_def getAssetPath_def
  addAssetDirectory_def console_def

text \<open>
  The claim C10 as it is written fails: five of the free functions go through
  \<^verbatim>\<open>Platform::get()\<close> and never read the instance pointer. With no live application and a
  platform object, \<^verbatim>\<open>console()\<close> and \<^verbatim>\<open>getAssetPath()\<close> return normally.
\<close>

theorem free_functions_counterexample:
  "sInstance \<lparr>sInstance = None, Platform_get = Some ()\<rparr> = None
   \<and> console (\<lambda>p. ''cout'') \<lparr>sInstance = None, Platform_get = Some ()\<rparr> = Inr ''cout''
   \<and> getAssetPath (\<lambda>p path. ''/assets/'' @ path) ''a.png'' \<lparr>sInstance = None, Platform_get = Some ()\<rparr>
       = Inr ''/assets/a.png''"
  by (simp add: console_def getAssetPath_def arrow_def)

text \<open>
  C10, amended. \<^verbatim>\<open>AppBase::get()\<close> returns the static instance pointer with no null check.
  Every free function whose body goes through it dereferences it unconditionally: with
  no live application the call dereferences a null pointer, and with a live application
  it is the call of the member function on that application. The free functions
  \<^verbatim>\<open>loadResource\<close>, \<^verbatim>\<open>loadAsset\<close>, \<^verbatim>\<open>getAssetPath\<close>, \<^verbatim>\<open>addAssetDirectory\<close> and \<^verbatim>\<open>console\<close> go
  through \<^verbatim>\<open>Platform::get()\<close> instead, and what they do does not depend on the instance
  pointer.
\<close>

theorem free_functions_need_instance:
  "AppBase_get g = sInstance g
   \<and> (sInstance g = None \<longrightarrow>
        getWindow g = Inl NullDereference
      \<and> getElapsedSeconds g = Inl NullDereference
      \<and> getElapsedFrames g = Inl NullDereference
      \<and> getFrameRate g = Inl NullDereference
      \<and> getNumWindows g = Inl NullDereference
      \<and> getWindowIndex index g = Inl NullDereference
      \<and> getWindowWidth g = Inl NullDereference
      \<and> setWindowPos Window_setPos windowPos g = Inl NullDereference
      \<and> setWindowPos_xy Window_setPos x y g = Inl NullDereference
      \<and> getWindowHeight g = Inl NullDereference
      \<and> setWindowSize Window_setSize windowWidth windowHeight g = Inl NullDereference
      \<and> getWindowCenter F g = Inl NullDereference
      \<and> getWindowSize g = Inl NullDereference
      \<and> getWindowPos g = Inl NullDereference
      \<and> getWindowAspectRatio F g = Inl NullDereference
      \<and> getWindowBounds g = Inl NullDereference
      \<and> getWindowContentScale g = Inl NullDereference
      \<and> setFrameRate AppBase_setFrameRate frameRate g = Inl NullDereference
      \<and> isFullScreen g = Inl NullDereference
      \<and> setFullScreen Window_setFullScreen fullScreen g = Inl NullDereference
      \<and> toPixels Window_toPixels s g = Inl NullDereference
      \<and> toPoints Window_toPoints s g = Inl NullDereference
      \<and> getAppPath g = Inl NullDereference
      \<and> getOpenFilePath AppBase_getOpenFilePath initialPath extensions g = Inl NullDereference
      \<and> getSaveFilePath AppBase_getSaveFilePath initialPath extensions g = Inl NullDereference
      \<and> timeline mTimeline g = Inl NullDereference
      \<and> copyWindowSurface AppBase_copyWindowSurface g = Inl NullDereference
      \<and> copyWindowSurface_area AppBase_copyWindowSurface_area area g = Inl NullDereference
      \<and> restoreWindowContext g = Inl NullDereference
      \<and> createWindowCgContext Window_getRenderer dynamic_pointer_cast getCgContext g
          = Inl NullDereference)
   \<and> (sInstance g = Some app \<longrightarrow>
        getWindow g = AppBase_getWindow app
      \<and> getElapsedSeconds g = Inr (AppBase_getElapsedSeconds app)
      \<and> getElapsedFrames g = Inr (AppBase_getElapsedFrames app)
      \<and> getFrameRate g = Inr (AppBase_getFrameRate app)
      \<and> getNumWindows g = Inr (AppBase_getNumWindows app)
      \<and> getWindowIndex index g = AppBase_getWindowIndex app index
      \<and> getWindowWidth g = AppBase_getWindowWidth app
      \<and> setWindowPos Window_setPos windowPos g = AppBase_setWindowPos Window_setPos windowPos app
      \<and> setWindowPos_xy Window_setPos x y g = AppBase_setWindowPos Window_setPos (x, y) app
      \<and> getWindowHeight g = AppBase_getWindowHeight app
      \<and> setWindowSize Window_setSize windowWidth windowHeight g
          = AppBase_setWindowSize Window_setSize (windowWidth, windowHeight) app
      \<and> getWindowCenter F g = AppBase_getWindowCenter F app
      \<and> getWindowSize g = AppBase_getWindowSize app
      \<and> getWindowPos g = AppBase_getWindowPos app
      \<and> getWindowAspectRatio F g = AppBase_getWindowAspectRatio F app
      \<and> getWindowBounds g = AppBase_getWindowBounds app
      \<and> getWindowContentScale g = AppBase_getWindowContentScale app
      \<and> setFrameRate AppBase_setFrameRate frameRate g = AppBase_setFrameRate frameRate app
      \<and> isFullScreen g = AppBase_isFullScreen app
      \<and> setFullScreen Window_setFullScreen fullScreen g
          = AppBase_setFullScreen Window_setFullScreen fullScreen app
      \<and> toPixels Window_toPixels s g = on_window app (\<lambda>w. Window_toPixels w s)
      \<and> toPoints Window_toPoints s g = on_window app (\<lambda>w. Window_toPoints w s)
      \<and> getAppPath g = Inr (AppBase_getAppPath app)
      \<and> getOpenFilePath AppBase_getOpenFilePath initialPath extensions g
          = AppBase_getOpenFilePath app initialPath extensions
      \<and> getSaveFilePath AppBase_getSaveFilePath initialPath extensions g
          = AppBase_getSaveFilePath app initialPath extensions
      \<and> timeline mTimeline g = AppBase_timeline mTimeline app
      \<and> copyWindowSurface AppBase_copyWindowSurface g = AppBase_copyWindowSurface app
      \<and> copyWindowSurface_area AppBase_copyWindowSurface_area area g
          = AppBase_copyWindowSurface_area app area
      \<and> restoreWindowContext g = Inr (AppBase_restoreWindowContext app))
   \<and> loadResource Platform_loadResource path (g\<lparr>sInstance := inst\<rparr>)
        = loadResource Platform_loadResource path g
   \<and> loadAsset Platform_loadAsset path (g\<lparr>sInstance := inst\<rparr>) = loadAsset Platform_loadAsset path g
   \<and> getAssetPath Platform_getAssetPath path (g\<lparr>sInstance := inst\<rparr>)
        = getAssetPath Platform_getAssetPath path g
   \<and> addAssetDirectory Platform_addAssetDirectory path (g\<lparr>sInstance := inst\<rparr>)
        = addAssetDirectory Platform_addAssetDirectory path g
   \<and> console Platform_console (g\<lparr>sInstance := inst\<rparr>) = console Platform_console g"
  by (simp add: free_function_defs split: sum.splits)

text \<open>
  With no live application \<^verbatim>\<open>getWindow()\<close> and \<^verbatim>\<open>getElapsedFrames()\<close> dereference a
  null pointer; with the example application they return its window and its frame count.
\<close>

theorem free_functions_need_instance_witness:
  "getWindow \<lparr>sInstance = None, Platform_get = Some ()\<rparr> = Inl NullDereference
   \<and> getElapsedFrames \<lparr>sInstance = None, Platform_get = Some ()\<rparr> = Inl NullDereference
   \<and> getWindow \<lparr>sInstance = Some app0, Platform_get = Some ()\<rparr> = Inr window0
   \<and> getElapsedFrames \<lparr>sInstance = Some app0, Platform_get = Some ()\<rparr> = Inr 0"
proof -
  let ?none = "\<lparr>sInstance = None, Platform_get = Some ()\<rparr>"
  let ?live = "\<lparr>sInstance = Some app0, Platform_get = Some ()\<rparr>"
  have none: "sInstance ?none = None" and live: "sInstance ?live = Some app0"
    by simp_all
  note dead = free_functions_need_instance
    [where g = ?none, THEN conjunct2, THEN conjunct1, THEN mp, OF none]
  note alive = free_functions_need_instance
    [where g = ?live and app = app0, THEN conjunct2, THEN conjunct2, THEN conjunct1, THEN mp, OF live]
  show ?thesis
    using dead [THEN conjunct1] dead [THEN conjunct2, THEN conjunct2, THEN conjunct1]
      alive [THEN conjunct1] alive [THEN conjunct2, THEN conjunct2, THEN conjunct1]
    by (simp add: AppBase_getElapsedFrames_def app0_def)
qed

end
